theory Spec2Isabelle
  imports Main "HOL-Library.Word"
begin

section \<open>Strings and containers of the host language\<close>

text \<open>
  In the router, the response context and the dispatcher, strings are compared, split
  and sliced only; a JavaScript string is modelled there as a \<^typ>\<open>string\<close>, one
  \<^typ>\<open>char\<close> per code unit. The separators \<open>/\<close> and \<open>:\<close> are single code units, so
  nothing there depends on the width of a unit. The texts that \<open>JSON.stringify\<close> writes
  and \<open>JSON.parse\<close> reads are lists of 16-bit code units.
\<close>

text \<open>\<open>s.split(sep)\<close> for a one-unit separator: the pieces between the separators, in
  order. The empty string gives one empty piece.\<close>

fun split :: "char \<Rightarrow> string \<Rightarrow> string list" where
  "split sep [] = [[]]"
| "split sep (c # cs) =
     (if c = sep then [] # split sep cs
      else (case split sep cs of
              [] \<Rightarrow> [[c]]
            | seg # segs \<Rightarrow> (c # seg) # segs))"

text \<open>\<open>s.startsWith(":")\<close> and \<open>s.slice(1)\<close>.\<close>

definition startsWith_colon :: "string \<Rightarrow> bool" where
  "startsWith_colon s = (case s of [] \<Rightarrow> False | c # _ \<Rightarrow> c = CHR '':'')"

definition slice1 :: "string \<Rightarrow> string" where
  "slice1 s = drop 1 s"

text \<open>
  A JavaScript \<open>Map\<close> keeps its entries in insertion order, and \<open>set\<close> on a key that is
  present replaces the value where the entry stands. It is an association list with
  \<open>Map_set\<close> as its only writer; \<open>get\<close> is \<^const>\<open>map_of\<close>.
\<close>

fun Map_set :: "'k \<Rightarrow> 'v \<Rightarrow> ('k \<times> 'v) list \<Rightarrow> ('k \<times> 'v) list" where
  "Map_set k v [] = [(k, v)]"
| "Map_set k v ((k', v') # kvs) =
     (if k' = k then (k, v) # kvs else (k', v') # Map_set k v kvs)"

text \<open>
  \<open>params\<close> is a plain object literal \<open>{}\<close> written with \<open>params[name] = value\<close>. The own
  properties of the object are a finite map. A plain object inherits the accessor
  \<open>__proto__\<close> from \<open>Object.prototype\<close>, whose setter ignores a value that is neither an
  object nor \<open>null\<close>: assigning a string under that one key creates no property.
\<close>

definition object_set :: "string \<Rightarrow> string \<Rightarrow> (string \<rightharpoonup> string) \<Rightarrow> (string \<rightharpoonup> string)" where
  "object_set name v obj = (if name = ''__proto__'' then obj else obj(name \<mapsto> v))"

section \<open>The router\<close>

text \<open>\<open>routes\<close>: a \<open>Map\<close> from method to a \<open>Map\<close> from route path to handler. The
  handler type is a parameter.\<close>

type_synonym 'h routes = "(string \<times> (string \<times> 'h) list) list"

definition supported_methods :: "string list" where
  "supported_methods = [''GET'', ''POST'', ''PUT'', ''DELETE'', ''PATCH'', ''HEAD'', ''OPTIONS'']"

text \<open>The constructor sets an empty \<open>Map\<close> for each supported method.\<close>

definition new_Router :: "'h routes" where
  "new_Router = fold (\<lambda>method routes. Map_set method [] routes) supported_methods []"

text \<open>\<open>register\<close>: a method without a table is left alone, silently.\<close>

definition register :: "string \<Rightarrow> string \<Rightarrow> 'h \<Rightarrow> 'h routes \<Rightarrow> 'h routes" where
  "register method path handler routes =
     (case map_of routes method of
        None \<Rightarrow> routes
      | Some methodRoutes \<Rightarrow> Map_set method (Map_set path handler methodRoutes) routes)"

text \<open>
  The inner loop of \<open>match\<close> over the positions \<open>i\<close>, run on the two part lists side by
  side (the caller has checked that they have the same length). \<open>None\<close> is
  \<open>match = false; break\<close>.
\<close>

fun match_parts :: "(string \<times> string) list \<Rightarrow> (string \<rightharpoonup> string) \<Rightarrow> (string \<rightharpoonup> string) option" where
  "match_parts [] params = Some params"
| "match_parts ((routePart, urlPart) # rest) params =
     (if startsWith_colon routePart
      then match_parts rest (object_set (slice1 routePart) urlPart params)
      else if routePart \<noteq> urlPart then None
      else match_parts rest params)"

text \<open>The outer loop over the entries of \<open>methodRoutes\<close>. The result is the pair
  \<open>{handler, params}\<close>, with \<open>handler: undefined\<close> as \<^const>\<open>None\<close>.\<close>

fun match_routes :: "(string \<times> 'h) list \<Rightarrow> string \<Rightarrow> 'h option \<times> (string \<rightharpoonup> string)" where
  "match_routes [] url = (None, Map.empty)"
| "match_routes ((routePath, handler) # more) url =
     (let routeParts = split CHR ''/'' routePath;
          urlParts = split CHR ''/'' url
      in if length routeParts \<noteq> length urlParts then match_routes more url
         else (case match_parts (zip routeParts urlParts) Map.empty of
                 Some params \<Rightarrow> (Some handler, params)
               | None \<Rightarrow> match_routes more url))"

definition match :: "'h routes \<Rightarrow> string \<Rightarrow> string \<Rightarrow> 'h option \<times> (string \<rightharpoonup> string)" where
  "match routes method url =
     (case map_of routes method of
        None \<Rightarrow> (None, Map.empty)
      | Some methodRoutes \<Rightarrow> match_routes methodRoutes url)"

text \<open>A route table built by a sequence of registrations \<open>(method, path, handler)\<close>.\<close>

definition registered :: "(string \<times> string \<times> 'h) list \<Rightarrow> 'h routes" where
  "registered regs = foldl (\<lambda>routes (method, path, handler). register method path handler routes) new_Router regs"

text \<open>
  The test the outer loop makes on one entry, and the route path of the entry at which
  the loop returns (\<open>match\<close> itself hands back the handler only).
\<close>

definition accepts :: "string \<Rightarrow> string \<Rightarrow> bool" where
  "accepts routePath url =
     (length (split CHR ''/'' routePath) = length (split CHR ''/'' url) \<and>
      match_parts (zip (split CHR ''/'' routePath) (split CHR ''/'' url)) Map.empty \<noteq> None)"

definition selected :: "'h routes \<Rightarrow> string \<Rightarrow> string \<Rightarrow> string option" where
  "selected routes method url =
     (case map_of routes method of
        None \<Rightarrow> None
      | Some methodRoutes \<Rightarrow>
          map_option fst (find (\<lambda>(routePath, handler). accepts routePath url) methodRoutes))"

section \<open>The matching rule in the words of the specification\<close>

text \<open>
  A segment of a pattern is a parameter (it starts with the sentinel \<open>:\<close>) or a literal.
  A parameter segment always matches; a literal segment must equal the path's segment.
\<close>

definition spec_segment_matches :: "string \<Rightarrow> string \<Rightarrow> bool" where
  "spec_segment_matches segment v = (startsWith_colon segment \<or> segment = v)"

text \<open>A pattern matches a path when both have the same number of segments and the
  segments match pairwise.\<close>

definition spec_pattern_matches :: "string \<Rightarrow> string \<Rightarrow> bool" where
  "spec_pattern_matches pattern path =
     (length (split CHR ''/'' pattern) = length (split CHR ''/'' path) \<and>
      list_all2 spec_segment_matches (split CHR ''/'' pattern) (split CHR ''/'' path))"

text \<open>The bindings of a match: one per parameter segment, its name with the path's
  segment at that position, in the order of the positions.\<close>

definition spec_bindings :: "string \<Rightarrow> string \<Rightarrow> (string \<times> string) list" where
  "spec_bindings pattern path =
     map (\<lambda>(segment, v). (slice1 segment, v))
       (filter (\<lambda>(segment, v). startsWith_colon segment)
          (zip (split CHR ''/'' pattern) (split CHR ''/'' path)))"

text \<open>The patterns registered for a method, in registration order (a pattern registered
  again keeps its place), and the handler a pattern has: the one registered last.\<close>

definition spec_patterns :: "(string \<times> string \<times> 'h) list \<Rightarrow> string \<Rightarrow> string list" where
  "spec_patterns regs method =
     rev (remdups (rev (map (\<lambda>(m, pattern, h). pattern) (filter (\<lambda>(m, pattern, h). m = method) regs))))"

definition spec_handler :: "(string \<times> string \<times> 'h) list \<Rightarrow> string \<Rightarrow> string \<Rightarrow> 'h option" where
  "spec_handler regs method pattern =
     map_of (rev (map (\<lambda>(m, p, h). (p, h)) (filter (\<lambda>(m, p, h). m = method) regs))) pattern"

definition spec_table :: "(string \<times> string \<times> 'h) list \<Rightarrow> string \<Rightarrow> (string \<times> 'h) list" where
  "spec_table regs method =
     map (\<lambda>p. (p, the (spec_handler regs method p))) (spec_patterns regs method)"

text \<open>\<open>match\<close>: the first registered pattern that matches, with its handler and its
  bindings; no match for a method outside the supported set or when no pattern matches.\<close>

definition spec_match ::
  "(string \<times> string \<times> 'h) list \<Rightarrow> string \<Rightarrow> string \<Rightarrow> ('h \<times> (string \<times> string) list) option" where
  "spec_match regs method path =
     (if method \<notin> set supported_methods then None
      else (case find (\<lambda>pattern. spec_pattern_matches pattern path) (spec_patterns regs method) of
              None \<Rightarrow> None
            | Some pattern \<Rightarrow>
                map_option (\<lambda>h. (h, spec_bindings pattern path)) (spec_handler regs method pattern)))"

text \<open>The bindings the inner loop writes, read off the paired part lists.\<close>

abbreviation bindings_of :: "(string \<times> string) list \<Rightarrow> (string \<times> string) list" where
  "bindings_of zs \<equiv>
     map (\<lambda>(segment, v). (slice1 segment, v)) (filter (\<lambda>(segment, v). startsWith_colon segment) zs)"

section \<open>The response context\<close>

text \<open>
  The three variables \<open>statusCode\<close>, \<open>headers\<close> (a \<open>Map\<close>) and \<open>responseBody\<close> (\<open>undefined\<close>
  until written) that the closures of \<open>responseContext\<close> share. The type of the body is a
  parameter: a \<^typ>\<open>string\<close> in the dispatcher, a text of 16-bit code units where the
  body is the text that \<open>JSON.stringify\<close> gives.
\<close>

record 'b response_state =
  statusCode :: int
  headers :: "(string \<times> string) list"
  responseBody :: "'b option"

definition initial_response :: "'b response_state" where
  "initial_response = \<lparr>statusCode = 200, headers = [], responseBody = None\<rparr>"

text \<open>
  What \<open>JSON.stringify(data)\<close> comes to: a text, \<open>undefined\<close> (for \<open>undefined\<close>, a function
  or a symbol), or a thrown \<open>TypeError\<close> (a cycle, a \<open>BigInt\<close>). The function itself is a
  parameter of the model. A call ends normally or by a throw, and either way leaves a
  state.
\<close>

datatype 'b stringified = Text 'b | Undefined | TypeError

datatype 'a completion = Normal 'a | Throw 'a

definition status :: "int \<Rightarrow> 'b response_state \<Rightarrow> 'b response_state" where
  "status code r = r\<lparr>statusCode := code\<rparr>"

definition json ::
  "('d \<Rightarrow> 'b stringified) \<Rightarrow> 'd \<Rightarrow> 'b response_state \<Rightarrow> 'b response_state completion" where
  "json JSON_stringify data r =
     (let r1 = r\<lparr>headers := Map_set ''Content-Type'' ''application/json'' (headers r)\<rparr>
      in case JSON_stringify data of
           Text t \<Rightarrow> Normal (r1\<lparr>responseBody := Some t\<rparr>)
         | Undefined \<Rightarrow> Normal (r1\<lparr>responseBody := None\<rparr>)
         | TypeError \<Rightarrow> Throw r1)"

definition send :: "'b \<Rightarrow> 'b response_state \<Rightarrow> 'b response_state" where
  "send data r = r\<lparr>responseBody := Some data\<rparr>"

definition setHeader :: "string \<Rightarrow> string \<Rightarrow> 'b response_state \<Rightarrow> 'b response_state" where
  "setHeader key v r = r\<lparr>headers := Map_set key v (headers r)\<rparr>"

text \<open>
  \<open>render\<close> reads \<open>this.viewsDir\<close> and \<open>this.templateEngine\<close>. The engine is the injected
  collaborator: it gives the rendered text, or it throws or rejects with some value
  \<open>e\<close>. The \<open>catch\<close> block writes the header and the status and then evaluates
  \<open>(e as Error).message\<close> inside a template literal; the cast checks nothing. So \<open>e\<close> is
  \<^item> \<open>Error m\<close>: a value whose \<open>message\<close> reads as the text \<open>m\<close>;
  \<^item> \<open>Messageless\<close>: a value other than \<open>null\<close> and \<open>undefined\<close> with no \<open>message\<close> (a
    thrown string, say), for which the literal gives \<open>undefined\<close>;
  \<^item> \<open>Nullish\<close>: \<open>null\<close> or \<open>undefined\<close>, where reading \<open>.message\<close> throws a \<open>TypeError\<close>
    out of the \<open>catch\<close> block, before the body is assigned. A \<open>message\<close> that cannot be
    turned into a text (a symbol, a getter that throws) does the same.
  \<open>path.join\<close> and the default \<open>{}\<close> of \<open>data\<close> are parameters too. The writes of \<open>render\<close>
  all come after its one \<open>await\<close>, so they happen together.
\<close>

datatype thrown = Error string | Messageless | Nullish

datatype engine_result = Rendered string | Rejected thrown

definition message_text :: "thrown \<Rightarrow> string option" where
  "message_text e =
     (case e of Error m \<Rightarrow> Some m | Messageless \<Rightarrow> Some ''undefined'' | Nullish \<Rightarrow> None)"

record 'd views =
  viewsDir :: string
  templateEngine :: "string \<Rightarrow> 'd \<Rightarrow> engine_result"
  path_join :: "string \<Rightarrow> string \<Rightarrow> string"
  empty_object :: 'd

definition render ::
  "'d views \<Rightarrow> string \<Rightarrow> 'd option \<Rightarrow> string response_state \<Rightarrow>
   string response_state completion" where
  "render app templatePath data_arg r =
     (let data = (case data_arg of None \<Rightarrow> empty_object app | Some d \<Rightarrow> d);
          fullPath = path_join app (viewsDir app) templatePath
      in case templateEngine app fullPath data of
           Rendered rendered \<Rightarrow>
             Normal (r\<lparr>headers := Map_set ''Content-Type'' ''text/html'' (headers r),
                        responseBody := Some rendered\<rparr>)
         | Rejected e \<Rightarrow>
             (let r1 = r\<lparr>headers := Map_set ''Content-Type'' ''text/plain'' (headers r),
                          statusCode := 500\<rparr>
              in case message_text e of
                   Some message \<Rightarrow>
                     Normal (r1\<lparr>responseBody := Some (''Error rendering template: '' @ message)\<rparr>)
                 | None \<Rightarrow> Throw r1))"

text \<open>A sequence of calls on one response context, run in order; a throw ends it.\<close>

datatype 'd call =
  Status int | Json 'd | Send string | SetHeader string string | Render string "'d option"

definition perform_call ::
  "('d \<Rightarrow> string stringified) \<Rightarrow> 'd views \<Rightarrow> 'd call \<Rightarrow> string response_state \<Rightarrow>
   string response_state completion" where
  "perform_call JSON_stringify app c r =
     (case c of
        Status code \<Rightarrow> Normal (status code r)
      | Json data \<Rightarrow> json JSON_stringify data r
      | Send data \<Rightarrow> Normal (send data r)
      | SetHeader key v \<Rightarrow> Normal (setHeader key v r)
      | Render templatePath data \<Rightarrow> render app templatePath data r)"

fun perform ::
  "('d \<Rightarrow> string stringified) \<Rightarrow> 'd views \<Rightarrow> 'd call list \<Rightarrow> string response_state \<Rightarrow>
   string response_state completion" where
  "perform JSON_stringify app [] r = Normal r"
| "perform JSON_stringify app (c # cs) r =
     (case perform_call JSON_stringify app c r of
        Normal r' \<Rightarrow> perform JSON_stringify app cs r'
      | Throw r' \<Rightarrow> Throw r')"

text \<open>
  What each call writes, for the statement of the last-write rule: the outcome of the
  engine for a \<open>render\<close> call, and the values a call stores in each of the three
  variables.
\<close>

definition engine_outcome :: "'d views \<Rightarrow> string \<Rightarrow> 'd option \<Rightarrow> engine_result" where
  "engine_outcome app templatePath data_arg =
     templateEngine app (path_join app (viewsDir app) templatePath)
       (case data_arg of None \<Rightarrow> empty_object app | Some d \<Rightarrow> d)"

definition status_writes :: "'d views \<Rightarrow> 'd call \<Rightarrow> int list" where
  "status_writes app c =
     (case c of
        Status code \<Rightarrow> [code]
      | Render templatePath data \<Rightarrow>
          (case engine_outcome app templatePath data of Rendered t \<Rightarrow> [] | Rejected m \<Rightarrow> [500])
      | _ \<Rightarrow> [])"

definition header_writes :: "'d views \<Rightarrow> 'd call \<Rightarrow> (string \<times> string) list" where
  "header_writes app c =
     (case c of
        SetHeader key v \<Rightarrow> [(key, v)]
      | Json data \<Rightarrow> [(''Content-Type'', ''application/json'')]
      | Render templatePath data \<Rightarrow>
          (case engine_outcome app templatePath data of
             Rendered t \<Rightarrow> [(''Content-Type'', ''text/html'')]
           | Rejected m \<Rightarrow> [(''Content-Type'', ''text/plain'')])
      | _ \<Rightarrow> [])"

definition body_writes ::
  "('d \<Rightarrow> string stringified) \<Rightarrow> 'd views \<Rightarrow> 'd call \<Rightarrow> string option list" where
  "body_writes JSON_stringify app c =
     (case c of
        Send data \<Rightarrow> [Some data]
      | Json data \<Rightarrow> (case JSON_stringify data of Text t \<Rightarrow> [Some t] | _ \<Rightarrow> [None])
      | Render templatePath data \<Rightarrow>
          (case engine_outcome app templatePath data of
             Rendered t \<Rightarrow> [Some t]
           | Rejected e \<Rightarrow>
               (case message_text e of
                  Some m \<Rightarrow> [Some (''Error rendering template: '' @ m)]
                | None \<Rightarrow> []))
      | _ \<Rightarrow> [])"

text \<open>
  For the examples: an engine that finds no template, and an engine
  \<open>async () => { throw null }\<close>.
\<close>

definition failing_views :: "unit views" where
  "failing_views =
     \<lparr>viewsDir = ''views'', templateEngine = (\<lambda>fullPath data. Rejected (Error ''ENOENT'')),
      path_join = (\<lambda>a b. a @ ''/'' @ b), empty_object = ()\<rparr>"

definition null_views :: "unit views" where
  "null_views =
     \<lparr>viewsDir = ''views'', templateEngine = (\<lambda>fullPath data. Rejected Nullish),
      path_join = (\<lambda>a b. a @ ''/'' @ b), empty_object = ()\<rparr>"


section \<open>The host's \<open>JSON.stringify\<close> and \<open>JSON.parse\<close>\<close>

text \<open>
  \<open>json\<close> hands its argument to \<open>JSON.stringify\<close>, a function of the host and not of this
  repository. The two functions are modelled here after ECMA-262 (sections 25.5.1 and
  25.5.2, with no reviver, replacer or indentation), for the round trip that is claimed
  of \<open>json\<close>. A text of the host is a list of 16-bit code units.
\<close>

type_synonym utext = "16 word list"

definition code_unit :: "char \<Rightarrow> 16 word" where
  "code_unit c = of_nat (of_char c)"

definition units :: "string \<Rightarrow> utext" where
  "units s = map code_unit s"

text \<open>
  The values: \<open>Undef\<close> stands for \<open>undefined\<close>, a function or a symbol, which
  \<open>JSON.stringify\<close> treats alike. An object is given by its own enumerable string-keyed
  properties in the order in which the host enumerates them. The type of numbers is a
  parameter, see below. Not expressed: a \<open>BigInt\<close> and a cyclic structure, on which
  \<open>JSON.stringify\<close> throws, and an object with a \<open>toJSON\<close> method or a boxed primitive,
  which are written as another value.
\<close>

datatype 'n jsvalue =
    Undef
  | Null
  | Bool bool
  | Num 'n
  | Str utext
  | Arr "'n jsvalue list"
  | Obj "(utext \<times> 'n jsvalue) list"

text \<open>
  What the two functions need of the numbers of the host: whether a number is finite,
  \<open>Number::toString\<close> (radix 10) and the number that a numeric literal of a JSON text
  denotes (\<open>StringToNumber\<close>). For the doubles of the host the last two are
  floating-point conversions; they are parameters here.
\<close>

record 'n number_host =
  is_finite :: "'n \<Rightarrow> bool"
  Number_toString :: "'n \<Rightarrow> utext"
  StringToNumber :: "utext \<Rightarrow> 'n"

subsection \<open>\<open>JSON.stringify\<close>\<close>

text \<open>
  \<open>QuoteJSONString\<close> goes through the code points of the string. The quotation mark,
  the reverse solidus and the control characters with a short form are written as
  two-character escapes; the other code units below U+0020 and a surrogate that is not
  half of a pair are written as a reverse solidus, \<open>u\<close> and four lower-case hexadecimal digits; every other code point
  stands for itself, a surrogate pair as its two units.
\<close>

definition hex_digit :: "int \<Rightarrow> 16 word" where
  "hex_digit n = units ''0123456789abcdef'' ! nat n"

definition unicode_escape :: "16 word \<Rightarrow> utext" where
  "unicode_escape u =
     [code_unit CHR 0x5C, code_unit CHR ''u'',
      hex_digit (uint u div 4096), hex_digit (uint u div 256 mod 16),
      hex_digit (uint u div 16 mod 16), hex_digit (uint u mod 16)]"

definition leading_surrogate :: "16 word \<Rightarrow> bool" where
  "leading_surrogate u = (0xD800 \<le> u \<and> u \<le> 0xDBFF)"

definition trailing_surrogate :: "16 word \<Rightarrow> bool" where
  "trailing_surrogate u = (0xDC00 \<le> u \<and> u \<le> 0xDFFF)"

definition quote_unit :: "16 word \<Rightarrow> utext" where
  "quote_unit u =
     (if u = 0x08 then [code_unit CHR 0x5C, code_unit CHR ''b'']
      else if u = 0x09 then [code_unit CHR 0x5C, code_unit CHR ''t'']
      else if u = 0x0A then [code_unit CHR 0x5C, code_unit CHR ''n'']
      else if u = 0x0C then [code_unit CHR 0x5C, code_unit CHR ''f'']
      else if u = 0x0D then [code_unit CHR 0x5C, code_unit CHR ''r'']
      else if u = 0x22 then [code_unit CHR 0x5C, code_unit CHR 0x22]
      else if u = 0x5C then [code_unit CHR 0x5C, code_unit CHR 0x5C]
      else if u < 0x20 \<or> leading_surrogate u \<or> trailing_surrogate u then unicode_escape u
      else [u])"

fun quote_units :: "utext \<Rightarrow> utext" where
  "quote_units (a # b # us) =
     (if leading_surrogate a \<and> trailing_surrogate b then a # b # quote_units us
      else quote_unit a @ quote_units (b # us))"
| "quote_units [a] = quote_unit a"
| "quote_units [] = []"

definition quoted :: "utext \<Rightarrow> utext" where
  "quoted s = code_unit CHR 0x22 # quote_units s @ [code_unit CHR 0x22]"

text \<open>
  \<open>SerializeJSONProperty\<close>, \<open>SerializeJSONArray\<close> and \<open>SerializeJSONObject\<close> with an empty
  gap: no white space between the tokens. The result is \<^const>\<open>None\<close> where the host
  gives \<open>undefined\<close>. A number that is not finite is written \<open>null\<close>; an element of an
  array with no text of its own is written \<open>null\<close>; a property with no text of its own
  is left out.
\<close>

fun separated :: "utext list \<Rightarrow> utext" where
  "separated [] = []"
| "separated [x] = x"
| "separated (x # y # zs) = x @ code_unit CHR '','' # separated (y # zs)"

fun stringify :: "'n number_host \<Rightarrow> 'n jsvalue \<Rightarrow> utext option" where
  "stringify host Undef = None"
| "stringify host Null = Some (units ''null'')"
| "stringify host (Bool b) = Some (if b then units ''true'' else units ''false'')"
| "stringify host (Num x) =
     Some (if is_finite host x then Number_toString host x else units ''null'')"
| "stringify host (Str s) = Some (quoted s)"
| "stringify host (Arr vs) =
     Some (code_unit CHR ''['' #
           separated (map (\<lambda>v. case stringify host v of None \<Rightarrow> units ''null'' | Some t \<Rightarrow> t) vs) @
           [code_unit CHR '']''])"
| "stringify host (Obj kvs) =
     Some (code_unit CHR ''{'' #
           separated (concat (map (\<lambda>(k, v). case stringify host v of
                                              None \<Rightarrow> []
                                            | Some t \<Rightarrow> [quoted k @ code_unit CHR '':'' # t]) kvs)) @
           [code_unit CHR ''}''])"


subsection \<open>\<open>JSON.parse\<close>\<close>

text \<open>
  The grammar of JSON texts (ECMA-404). White space is a tab, a line feed, a carriage
  return or a space, and may stand around every token. A string ends at the first
  quotation mark that is not escaped; a code unit below U+0020 inside it is an error;
  after a reverse solidus stands a quotation mark, a reverse solidus, a solidus, one
  of \<open>b\<close>, \<open>f\<close>, \<open>n\<close>, \<open>r\<close>, \<open>t\<close>, or \<open>u\<close> and four hexadecimal digits of either case.
\<close>

definition is_ws :: "16 word \<Rightarrow> bool" where
  "is_ws u = (u = 0x09 \<or> u = 0x0A \<or> u = 0x0D \<or> u = 0x20)"

definition skip_ws :: "utext \<Rightarrow> utext" where
  "skip_ws t = dropWhile is_ws t"

definition hex_value :: "16 word \<Rightarrow> int option" where
  "hex_value u =
     (let n = uint u
      in if 48 \<le> n \<and> n \<le> 57 then Some (n - 48)
         else if 97 \<le> n \<and> n \<le> 102 then Some (n - 87)
         else if 65 \<le> n \<and> n \<le> 70 then Some (n - 55)
         else None)"

definition hex4 :: "16 word \<Rightarrow> 16 word \<Rightarrow> 16 word \<Rightarrow> 16 word \<Rightarrow> int option" where
  "hex4 a b c d =
     (case (hex_value a, hex_value b, hex_value c, hex_value d) of
        (Some x, Some y, Some z, Some w) \<Rightarrow> Some (((x * 16 + y) * 16 + z) * 16 + w)
      | _ \<Rightarrow> None)"

definition unescape :: "16 word \<Rightarrow> 16 word option" where
  "unescape e =
     (if e = code_unit CHR 0x22 then Some 0x22
      else if e = code_unit CHR 0x5C then Some 0x5C
      else if e = code_unit CHR ''/'' then Some 0x2F
      else if e = code_unit CHR ''b'' then Some 0x08
      else if e = code_unit CHR ''f'' then Some 0x0C
      else if e = code_unit CHR ''n'' then Some 0x0A
      else if e = code_unit CHR ''r'' then Some 0x0D
      else if e = code_unit CHR ''t'' then Some 0x09
      else None)"

fun read_string :: "utext \<Rightarrow> (utext \<times> utext) option" where
  "read_string [] = None"
| "read_string (c # r) =
     (if c = code_unit CHR 0x22 then Some ([], r)
      else if c = code_unit CHR 0x5C then
        (case r of
           [] \<Rightarrow> None
         | e # r1 \<Rightarrow>
             if e = code_unit CHR ''u'' then
               (case r1 of
                  a # b # c' # d # r2 \<Rightarrow>
                    (case hex4 a b c' d of
                       None \<Rightarrow> None
                     | Some n \<Rightarrow> map_option (apfst ((#) (word_of_int n))) (read_string r2))
                | _ \<Rightarrow> None)
             else (case unescape e of
                     None \<Rightarrow> None
                   | Some u \<Rightarrow> map_option (apfst ((#) u)) (read_string r1)))
      else if c < 0x20 then None
      else map_option (apfst ((#) c)) (read_string r))"

text \<open>
  A numeric literal: an optional minus sign; the integer part, a single \<open>0\<close> or digits
  that do not begin with \<open>0\<close>; an optional fraction, a point and at least one digit; an
  optional exponent, \<open>e\<close> or \<open>E\<close>, an optional sign and at least one digit. Each reader
  gives the part it read and the rest of the text.
\<close>

definition is_digit :: "16 word \<Rightarrow> bool" where
  "is_digit u = (0x30 \<le> u \<and> u \<le> 0x39)"

definition read_sign :: "utext \<Rightarrow> utext \<times> utext" where
  "read_sign t =
     (case t of
        [] \<Rightarrow> ([], t)
      | c # r \<Rightarrow> if c = code_unit CHR ''-'' then ([c], r) else ([], t))"

definition read_integer :: "utext \<Rightarrow> (utext \<times> utext) option" where
  "read_integer t =
     (case t of
        [] \<Rightarrow> None
      | c # r \<Rightarrow>
          if c = code_unit CHR ''0'' then Some ([c], r)
          else if is_digit c then Some (takeWhile is_digit t, dropWhile is_digit t)
          else None)"

definition read_fraction :: "utext \<Rightarrow> (utext \<times> utext) option" where
  "read_fraction t =
     (case t of
        [] \<Rightarrow> Some ([], t)
      | c # r \<Rightarrow>
          if c = code_unit CHR ''.'' then
            (if takeWhile is_digit r = [] then None
             else Some (c # takeWhile is_digit r, dropWhile is_digit r))
          else Some ([], t))"

definition read_exponent :: "utext \<Rightarrow> (utext \<times> utext) option" where
  "read_exponent t =
     (case t of
        [] \<Rightarrow> Some ([], t)
      | c # r \<Rightarrow>
          if c = code_unit CHR ''e'' \<or> c = code_unit CHR ''E'' then
            (let sign = (case r of
                           [] \<Rightarrow> []
                         | s # r' \<Rightarrow> if s = code_unit CHR ''+'' \<or> s = code_unit CHR ''-'' then [s] else []);
                 r1 = drop (length sign) r
             in if takeWhile is_digit r1 = [] then None
                else Some (c # sign @ takeWhile is_digit r1, dropWhile is_digit r1))
          else Some ([], t))"

definition read_number :: "utext \<Rightarrow> (utext \<times> utext) option" where
  "read_number t =
     (case read_sign t of
        (sign, t1) \<Rightarrow>
          (case read_integer t1 of
             None \<Rightarrow> None
           | Some (whole, t2) \<Rightarrow>
               (case read_fraction t2 of
                  None \<Rightarrow> None
                | Some (fraction, t3) \<Rightarrow>
                    (case read_exponent t3 of
                       None \<Rightarrow> None
                     | Some (exponent, t4) \<Rightarrow> Some (sign @ whole @ fraction @ exponent, t4)))))"

text \<open>
  The properties of an object are created one by one, in the order of the text
  (\<open>CreateDataProperty\<close>). A key that is there already keeps its place and takes the
  later value. The host enumerates the keys that are array indices first, in
  ascending order, and the other keys after them in the order of their creation. An
  array index is the canonical decimal text of an integer below \<open>2\<^sup>3\<^sup>2 - 1\<close>.
\<close>

definition digits_value :: "utext \<Rightarrow> int" where
  "digits_value ds = foldl (\<lambda>acc c. 10 * acc + (uint c - 48)) 0 ds"

definition array_index :: "utext \<Rightarrow> int option" where
  "array_index k =
     (if k \<noteq> [] \<and> list_all is_digit k \<and> (length k = 1 \<or> hd k \<noteq> code_unit CHR ''0'') \<and>
         digits_value k < 4294967295
      then Some (digits_value k) else None)"

fun insert_index :: "int \<Rightarrow> utext \<Rightarrow> 'v \<Rightarrow> (utext \<times> 'v) list \<Rightarrow> (utext \<times> 'v) list" where
  "insert_index i k v [] = [(k, v)]"
| "insert_index i k v ((k', v') # ps) =
     (case array_index k' of
        Some j \<Rightarrow> if j < i then (k', v') # insert_index i k v ps else (k, v) # (k', v') # ps
      | None \<Rightarrow> (k, v) # (k', v') # ps)"

definition define_property :: "utext \<Rightarrow> 'v \<Rightarrow> (utext \<times> 'v) list \<Rightarrow> (utext \<times> 'v) list" where
  "define_property k v ps =
     (if k \<in> set (map fst ps) then Map_set k v ps
      else (case array_index k of
              Some i \<Rightarrow> insert_index i k v ps
            | None \<Rightarrow> ps @ [(k, v)]))"

definition build_properties :: "(utext \<times> 'v) list \<Rightarrow> (utext \<times> 'v) list" where
  "build_properties members = fold (\<lambda>(k, v) ps. define_property k v ps) members []"

text \<open>
  The three parsers read a value, the elements of an array after its bracket, and the
  members of an object after its brace. Their first argument bounds the depth of the
  recursion; the length of the text is always enough. \<open>parse\<close> is \<^const>\<open>None\<close> where
  \<open>JSON.parse\<close> throws a \<open>SyntaxError\<close>.
\<close>

definition read_literal :: "string \<Rightarrow> 'a \<Rightarrow> utext \<Rightarrow> ('a \<times> utext) option" where
  "read_literal word v t =
     (if take (length word) t = units word then Some (v, drop (length word) t) else None)"

fun parse_value :: "'n number_host \<Rightarrow> nat \<Rightarrow> utext \<Rightarrow> ('n jsvalue \<times> utext) option"
  and parse_items :: "'n number_host \<Rightarrow> nat \<Rightarrow> utext \<Rightarrow> ('n jsvalue list \<times> utext) option"
  and parse_members ::
    "'n number_host \<Rightarrow> nat \<Rightarrow> utext \<Rightarrow> ((utext \<times> 'n jsvalue) list \<times> utext) option"
where
  "parse_value host 0 t = None"
| "parse_value host (Suc n) t =
     (case skip_ws t of
        [] \<Rightarrow> None
      | c # r \<Rightarrow>
          if c = code_unit CHR ''n'' then read_literal ''null'' Null (c # r)
          else if c = code_unit CHR ''t'' then read_literal ''true'' (Bool True) (c # r)
          else if c = code_unit CHR ''f'' then read_literal ''false'' (Bool False) (c # r)
          else if c = code_unit CHR 0x22 then map_option (apfst Str) (read_string r)
          else if c = code_unit CHR ''['' then
            (case skip_ws r of
               [] \<Rightarrow> None
             | c' # r' \<Rightarrow>
                 if c' = code_unit CHR '']'' then Some (Arr [], r')
                 else map_option (apfst Arr) (parse_items host n r))
          else if c = code_unit CHR ''{'' then
            (case skip_ws r of
               [] \<Rightarrow> None
             | c' # r' \<Rightarrow>
                 if c' = code_unit CHR ''}'' then Some (Obj [], r')
                 else map_option (apfst (\<lambda>members. Obj (build_properties members)))
                        (parse_members host n r))
          else map_option (apfst (\<lambda>token. Num (StringToNumber host token)))
                 (read_number (c # r)))"
| "parse_items host 0 t = None"
| "parse_items host (Suc n) t =
     (case parse_value host n t of
        None \<Rightarrow> None
      | Some (v, r) \<Rightarrow>
          (case skip_ws r of
             [] \<Rightarrow> None
           | c # r' \<Rightarrow>
               if c = code_unit CHR '','' then map_option (apfst ((#) v)) (parse_items host n r')
               else if c = code_unit CHR '']'' then Some ([v], r')
               else None))"
| "parse_members host 0 t = None"
| "parse_members host (Suc n) t =
     (case skip_ws t of
        [] \<Rightarrow> None
      | q # r \<Rightarrow>
          if q \<noteq> code_unit CHR 0x22 then None
          else (case read_string r of
                  None \<Rightarrow> None
                | Some (k, r1) \<Rightarrow>
                    (case skip_ws r1 of
                       [] \<Rightarrow> None
                     | c # r2 \<Rightarrow>
                         if c \<noteq> code_unit CHR '':'' then None
                         else (case parse_value host n r2 of
                                 None \<Rightarrow> None
                               | Some (v, r3) \<Rightarrow>
                                   (case skip_ws r3 of
                                      [] \<Rightarrow> None
                                    | c' # r4 \<Rightarrow>
                                        if c' = code_unit CHR '','' then
                                          map_option (apfst ((#) (k, v))) (parse_members host n r4)
                                        else if c' = code_unit CHR ''}'' then Some ([(k, v)], r4)
                                        else None)))))"

definition parse :: "'n number_host \<Rightarrow> utext \<Rightarrow> 'n jsvalue option" where
  "parse host text =
     (case parse_value host (Suc (length text)) text of
        Some (v, r) \<Rightarrow> if skip_ws r = [] then Some v else None
      | None \<Rightarrow> None)"

subsection \<open>The values of the JSON data model\<close>




definition ends_number :: "utext \<Rightarrow> bool" where
  "ends_number rest =
     (case rest of
        [] \<Rightarrow> True
      | c # _ \<Rightarrow> \<not> is_digit c \<and> c \<noteq> code_unit CHR ''.'' \<and> c \<noteq> code_unit CHR ''e'' \<and>
                 c \<noteq> code_unit CHR ''E'')"



subsection \<open>Numbers written in decimal\<close>

text \<open>
  An instance of the numbers for the examples: \<open>NaN\<close>, the two infinities, and
  \<open>Finite negative m e\<close> for \<open>m \<times> 10\<^sup>e\<close> with its sign, where \<open>m\<close> is 0 with \<open>e = 0\<close> or is
  positive and not a multiple of 10. \<open>number_text\<close> is \<open>Number::toString\<close> on the digits of \<open>m\<close>;
  \<open>literal_number\<close> takes a literal for the decimal it denotes. This is what the host
  does for the doubles that a decimal of at most 15 significant digits names, within
  the range of the doubles; for a literal of more digits the host rounds to the
  nearest double, and beyond the range it gives an infinity or a zero, which this
  instance does not.
\<close>

datatype number = NaN | Infinity bool | Finite bool int int

definition digit_unit :: "int \<Rightarrow> 16 word" where
  "digit_unit n = word_of_int (48 + n)"

function digits :: "int \<Rightarrow> utext" where
  "digits n = (if n < 10 then [digit_unit n] else digits (n div 10) @ [digit_unit (n mod 10)])"
  by pat_completeness auto
termination
  by (relation "measure nat") auto

declare digits.simps [simp del]

definition decimal_text :: "int \<Rightarrow> int \<Rightarrow> utext" where
  "decimal_text m e =
     (let s = digits m; k = int (length s); n = k + e
      in if k \<le> n \<and> n \<le> 21 then s @ replicate (nat (n - k)) (code_unit CHR ''0'')
         else if 0 < n \<and> n \<le> 21 then take (nat n) s @ code_unit CHR ''.'' # drop (nat n) s
         else if - 6 < n \<and> n \<le> 0
           then units ''0.'' @ replicate (nat (- n)) (code_unit CHR ''0'') @ s
         else (if k = 1 then s else hd s # code_unit CHR ''.'' # tl s) @
              code_unit CHR ''e'' # (if n - 1 < 0 then code_unit CHR ''-'' else code_unit CHR ''+'') #
              digits \<bar>n - 1\<bar>)"

definition number_text :: "number \<Rightarrow> utext" where
  "number_text x =
     (case x of
        NaN \<Rightarrow> units ''NaN''
      | Infinity negative \<Rightarrow> if negative then units ''-Infinity'' else units ''Infinity''
      | Finite negative m e \<Rightarrow>
          if m = 0 then units ''0''
          else if negative then code_unit CHR ''-'' # decimal_text m e
          else decimal_text m e)"

function normalise :: "int \<Rightarrow> int \<Rightarrow> int \<times> int" where
  "normalise m e =
     (if m = 0 then (0, 0)
      else if m mod 10 = 0 then normalise (m div 10) (e + 1)
      else (m, e))"
  by pat_completeness auto
termination
  by (relation "measure (\<lambda>(m, e). nat \<bar>m\<bar>)") auto

declare normalise.simps [simp del]

definition literal_number :: "utext \<Rightarrow> number" where
  "literal_number t =
     (case read_sign t of
        (sign, t1) \<Rightarrow>
          (let whole = takeWhile is_digit t1;
               t2 = dropWhile is_digit t1;
               fraction = (case t2 of
                             [] \<Rightarrow> []
                           | c # r \<Rightarrow> if c = code_unit CHR ''.'' then takeWhile is_digit r else []);
               t3 = drop (if fraction = [] then 0 else Suc (length fraction)) t2;
               exponent = (case t3 of
                             [] \<Rightarrow> 0
                           | c # r \<Rightarrow>
                               (case r of
                                  [] \<Rightarrow> 0
                                | s # r' \<Rightarrow>
                                    if s = code_unit CHR ''-'' then - digits_value r'
                                    else if s = code_unit CHR ''+'' then digits_value r'
                                    else digits_value r))
           in case normalise (digits_value (whole @ fraction)) (exponent - int (length fraction)) of
                (m, e) \<Rightarrow> Finite (sign \<noteq> []) m e))"

definition decimal :: "number number_host" where
  "decimal =
     \<lparr>is_finite = (\<lambda>x. case x of Finite negative m e \<Rightarrow> True | _ \<Rightarrow> False),
      Number_toString = number_text,
      StringToNumber = literal_number\<rparr>"

section \<open>The dispatcher\<close>

subsection \<open>Requests, steps and handlers\<close>

text \<open>
  What the transport hands to \<open>handleRequest\<close>: \<open>req.method\<close> and \<open>req.url\<close> (either may be
  missing), the headers and the text that the request stream delivers.
\<close>

record incoming =
  in_method :: "string option"
  in_url :: "string option"
  in_headers :: "string \<rightharpoonup> string"
  in_stream :: string

text \<open>
  \<open>requestContext\<close> in two parts. The fields that the steps only read are a \<open>request\<close>:
  the method \<open>req.method || "GET"\<close>, \<open>url = req.url || "/"\<close>, the headers and the stream.
  The fields that are written while the chain runs, \<open>body\<close> (\<open>null\<close> is \<^const>\<open>None\<close>) and
  \<open>params\<close>, stand with the variables of the response context in an \<open>exchange\<close>. Steps
  are taken not to assign \<open>req.method\<close>, \<open>req.url\<close> or \<open>req.headers\<close>.
\<close>

record request =
  rq_method :: string
  rq_url :: string
  rq_headers :: "string \<rightharpoonup> string"
  rq_stream :: string

record 'd exchange =
  rq_body :: "'d option"
  rq_params :: "string \<rightharpoonup> string"
  response :: "string response_state"
definition or_else :: "string option \<Rightarrow> string \<Rightarrow> string" where
  "or_else s d = (case s of None \<Rightarrow> d | Some x \<Rightarrow> if x = [] then d else x)"

definition request_of :: "incoming \<Rightarrow> request" where
  "request_of msg =
     \<lparr>rq_method = or_else (in_method msg) ''GET'', rq_url = or_else (in_url msg) ''/'',
      rq_headers = in_headers msg, rq_stream = in_stream msg\<rparr>"

definition fresh_exchange :: "'d exchange" where
  "fresh_exchange = \<lparr>rq_body = None, rq_params = Map.empty, response = initial_response\<rparr>"

text \<open>
  The body of a middleware or of a handler, as the tree of what it does:
  \<^item> \<open>Return\<close>: the function returns; the promise of its call is resolved;
  \<^item> \<open>Act f k\<close>: a synchronous effect on the exchange, then \<open>k\<close>;
  \<^item> \<open>Test p a b\<close>: a branch on the exchange;
  \<^item> \<open>Suspend k\<close>: an \<open>await\<close> of work that ends in a later turn of the event loop (a
    file read, the end of the request stream, a timer), then \<open>k\<close>;
  \<^item> \<open>Never\<close>: an \<open>await\<close> of a promise that nobody settles;
  \<^item> \<open>Call_next k\<close>: \<open>next();\<close> with the promise it returns dropped, then \<open>k\<close>;
  \<^item> \<open>Await_next k\<close>: \<open>await next();\<close> then \<open>k\<close> (\<open>return next()\<close> is
    \<open>Await_next Return\<close>).
  A handler is given no \<open>next\<close>: in a handler's body the last two do nothing. A step is
  a body chosen from the request. Bodies that throw, that await a promise already
  settled, or that call \<open>next\<close> from a callback after they returned are not expressed.
\<close>

datatype 's task =
    Return
  | Act "'s \<Rightarrow> 's" "'s task"
  | Test "'s \<Rightarrow> bool" "'s task" "'s task"
  | Suspend "'s task"
  | Never
  | Call_next "'s task"
  | Await_next "'s task"

type_synonym 'd step = "request \<Rightarrow> 'd exchange task"

record 'd bonfire =
  router :: "'d step routes"
  middlewares :: "'d step list"
definition on_response ::
  "(string response_state \<Rightarrow> string response_state) \<Rightarrow> 'd exchange \<Rightarrow> 'd exchange" where
  "on_response f s = s\<lparr>response := f (response s)\<rparr>"
definition state_after :: "'a completion \<Rightarrow> 'a" where
  "state_after r = (case r of Normal s \<Rightarrow> s | Throw s \<Rightarrow> s)"

subsection \<open>The chain\<close>

text \<open>
  The run is observed through a trace: \<open>Started i\<close> when \<open>executeMiddleware(i)\<close> is
  entered (\<open>i\<close> equal to the number of middlewares is the terminal branch),
  \<open>Finished i r\<close> when the body at index \<open>i\<close> returns, with the response context it
  leaves, \<open>Handler_called\<close> when the matched handler is invoked, and \<open>Flush r\<close> when the
  dispatcher reads the response context and hands \<open>r\<close> to the transport.
\<close>

datatype event =
  Started nat | Finished nat "string response_state" | Handler_called | Flush "string response_state"

text \<open>
  A suspended call is a stack of frames, innermost first: the rest of a body with its
  index; each frame below the first awaits the call above it. The promise that a call
  of \<open>executeMiddleware\<close> returns is resolved, or pending on such a stack, or will never
  be settled.
\<close>

type_synonym 'd thread = "('d exchange task \<times> nat) list"

datatype 'd promise = Resolved | Pending "'d thread" | Unsettled

type_synonym 'd config = "'d exchange \<times> event list"

text \<open>
  \<open>executeMiddleware(index)\<close> and the interpreter of bodies. Both run synchronously
  until the call returns its promise, and give the exchange and trace at that moment,
  the calls that were started with their promise dropped and are still suspended, and
  the state of the promise. \<open>await handler(...)\<close> and \<open>await this.middlewares[index](...)\<close>
  are the last thing the source function does, so its promise is the promise of the
  body. A body that awaits a call of \<open>next\<close> which has already returned all the way
  goes on at once here; the host resumes it later in the same turn, after the code
  then running. The two differ only in the order, within one turn, of what different
  bodies do after their calls of \<open>next\<close>; work that ends in a later turn comes after
  both.
\<close>

function executeMiddleware ::
    "'d bonfire \<Rightarrow> request \<Rightarrow> nat \<Rightarrow> 'd config \<Rightarrow> 'd config \<times> 'd thread list \<times> 'd promise"
  and run ::
    "'d bonfire \<Rightarrow> request \<Rightarrow> nat \<Rightarrow> 'd exchange task \<Rightarrow> 'd config \<Rightarrow> 'd config \<times> 'd thread list \<times> 'd promise"
where
  "executeMiddleware app req index (s, tr) =
     (if index \<ge> length (middlewares app) then
        (case match (router app) (rq_method req) (rq_url req) of
           (Some handler, params) \<Rightarrow>
             run app req index (handler req)
               (s\<lparr>rq_params := params\<rparr>, tr @ [Started index, Handler_called])
         | (None, params) \<Rightarrow>
             (let s' = s\<lparr>rq_params := params,
                         response := send ''Not Found'' (status 404 (response s))\<rparr>
              in ((s', tr @ [Started index, Finished index (response s')]), [], Resolved)))
      else run app req index ((middlewares app ! index) req) (s, tr @ [Started index]))"
| "run app req index Return (s, tr) = ((s, tr @ [Finished index (response s)]), [], Resolved)"
| "run app req index (Act f k) (s, tr) = run app req index k (f s, tr)"
| "run app req index (Test p a b) (s, tr) =
     (if p s then run app req index a (s, tr) else run app req index b (s, tr))"
| "run app req index (Suspend k) (s, tr) = ((s, tr), [], Pending [(k, index)])"
| "run app req index Never (s, tr) = ((s, tr), [], Unsettled)"
| "run app req index (Call_next k) (s, tr) =
     (if index \<ge> length (middlewares app) then run app req index k (s, tr)
      else (case executeMiddleware app req (index + 1) (s, tr) of
              (c1, d1, p1) \<Rightarrow>
                (case run app req index k c1 of
                   (c2, d2, p2) \<Rightarrow>
                     (c2, d1 @ (case p1 of Pending th \<Rightarrow> [th] | _ \<Rightarrow> []) @ d2, p2))))"
| "run app req index (Await_next k) (s, tr) =
     (if index \<ge> length (middlewares app) then run app req index k (s, tr)
      else (case executeMiddleware app req (index + 1) (s, tr) of
              (c1, d1, Resolved) \<Rightarrow>
                (case run app req index k c1 of (c2, d2, p2) \<Rightarrow> (c2, d1 @ d2, p2))
            | (c1, d1, Pending th) \<Rightarrow> (c1, d1, Pending (th @ [(k, index)]))
            | (c1, d1, Unsettled) \<Rightarrow> (c1, d1, Unsettled)))"
  by pat_completeness auto
termination
  by (relation "measures
        [\<lambda>x. case x of Inl (app, req, index, c) \<Rightarrow> Suc (length (middlewares app)) - index
                       | Inr (app, req, index, t, c) \<Rightarrow> Suc (length (middlewares app)) - index,
         \<lambda>x. case x of Inl _ \<Rightarrow> 1 | Inr _ \<Rightarrow> 0,
         \<lambda>x. case x of Inl _ \<Rightarrow> 0 | Inr (app, req, index, t, c) \<Rightarrow> size t]")
     auto
declare executeMiddleware.simps [simp del]

text \<open>The work a suspended call waits for ends: its innermost frame goes on, and when a
  frame's call resolves, the frame that awaits it goes on.\<close>

fun resume ::
  "'d bonfire \<Rightarrow> request \<Rightarrow> 'd thread \<Rightarrow> 'd config \<Rightarrow> 'd config \<times> 'd thread list \<times> 'd promise" where
  "resume app req [] c = (c, [], Resolved)"
| "resume app req ((t, index) # awaiting) c =
     (case run app req index t c of
        (c1, d1, Resolved) \<Rightarrow>
          (case resume app req awaiting c1 of (c2, d2, p2) \<Rightarrow> (c2, d1 @ d2, p2))
      | (c1, d1, Pending th) \<Rightarrow> (c1, d1, Pending (th @ awaiting))
      | (c1, d1, Unsettled) \<Rightarrow> (c1, d1, Unsettled))"

subsection \<open>\<open>handleRequest\<close> and the event loop\<close>

text \<open>
  After \<open>await executeMiddleware(0)\<close> the dispatcher reads the three variables and
  writes the response. The state of the loop: exchange and trace, the promise of
  \<open>executeMiddleware(0)\<close>, the other suspended calls, and whether the response has been
  written. The flush is a continuation of a resolved promise: it runs before any
  pending work of a later turn completes. A schedule names, turn by turn, which of the
  waiting calls has its work completed next.
\<close>

record 'd loop_state =
  config :: "'d config"
  main :: "'d promise"
  detached :: "'d thread list"
  flushed :: bool

definition flush :: "'d loop_state \<Rightarrow> 'd loop_state" where
  "flush st =
     (case main st of
        Resolved \<Rightarrow>
          (if flushed st then st
           else st\<lparr>config := (fst (config st), snd (config st) @ [Flush (response (fst (config st)))]),
                    flushed := True\<rparr>)
      | _ \<Rightarrow> st)"

definition waiting :: "'d loop_state \<Rightarrow> nat" where
  "waiting st = (case main st of Pending th \<Rightarrow> 1 | _ \<Rightarrow> 0) + length (detached st)"

definition complete :: "'d bonfire \<Rightarrow> request \<Rightarrow> nat \<Rightarrow> 'd loop_state \<Rightarrow> 'd loop_state" where
  "complete app req choice st =
     (case (main st, choice mod waiting st) of
        (Pending th, 0) \<Rightarrow>
          (case resume app req th (config st) of
             (c, d, p) \<Rightarrow> st\<lparr>config := c, main := p, detached := detached st @ d\<rparr>)
      | (m, n) \<Rightarrow>
          (let i = (case m of Pending th \<Rightarrow> n - 1 | _ \<Rightarrow> n)
           in case resume app req (detached st ! i) (config st) of
                (c, d, p) \<Rightarrow>
                  st\<lparr>config := c,
                     detached := take i (detached st) @ drop (Suc i) (detached st) @ d @
                                 (case p of Pending th' \<Rightarrow> [th'] | _ \<Rightarrow> [])\<rparr>))"

fun event_loop :: "'d bonfire \<Rightarrow> request \<Rightarrow> nat list \<Rightarrow> 'd loop_state \<Rightarrow> 'd loop_state" where
  "event_loop app req [] st = flush st"
| "event_loop app req (choice # schedule) st =
     (let st' = flush st
      in if waiting st' = 0 then st'
         else event_loop app req schedule (complete app req choice st'))"
definition handleRequest :: "'d bonfire \<Rightarrow> incoming \<Rightarrow> nat list \<Rightarrow> 'd loop_state" where
  "handleRequest app msg schedule =
     (case executeMiddleware app (request_of msg) 0 (fresh_exchange, []) of
        (c, d, p) \<Rightarrow>
          event_loop app (request_of msg) schedule
            \<lparr>config = c, main = p, detached = d, flushed = False\<rparr>)"
definition trace :: "'d loop_state \<Rightarrow> event list" where
  "trace st = snd (config st)"

subsection \<open>\<open>jsonMiddleware\<close>\<close>

text \<open>
  \<open>JSON.parse\<close> (\<^const>\<open>None\<close> when it throws), \<open>JSON.stringify\<close> and the object
  \<open>{ error: "Invalid JSON" }\<close> are parameters. \<open>contentType?.includes(...)\<close> is a substring
  test. The \<open>await\<close> is on a promise that the \<open>end\<close> handler of the stream resolves; in
  its \<open>catch\<close> branch the handler returns without calling \<open>resolve\<close>.
\<close>

fun string_includes :: "string \<Rightarrow> string \<Rightarrow> bool" where
  "string_includes [] sub = (sub = [])"
| "string_includes (c # cs) sub = (take (length sub) (c # cs) = sub \<or> string_includes cs sub)"
record 'd host =
  JSON_parse :: "string \<Rightarrow> 'd option"
  JSON_stringify :: "'d \<Rightarrow> string stringified"
  error_object :: 'd

definition jsonMiddleware :: "'d host \<Rightarrow> 'd step" where
  "jsonMiddleware host req =
     (if rq_method req = ''GET'' \<or> rq_method req = ''HEAD'' then Call_next Return
      else if (case rq_headers req ''content-type'' of
                 None \<Rightarrow> False
               | Some contentType \<Rightarrow> string_includes contentType ''application/json'')
      then Act (\<lambda>s. s\<lparr>rq_body := None\<rparr>)
             (Suspend
                (if rq_stream req = [] then Act (\<lambda>s. s\<lparr>rq_body := None\<rparr>) (Call_next Return)
                 else (case JSON_parse host (rq_stream req) of
                         Some v \<Rightarrow> Act (\<lambda>s. s\<lparr>rq_body := Some v\<rparr>) (Call_next Return)
                       | None \<Rightarrow>
                           Act (on_response (\<lambda>r. state_after
                                  (json (JSON_stringify host) (error_object host) (status 400 r))))
                             Never)))
      else Call_next Return)"

subsection \<open>Shapes of bodies\<close>








subsection \<open>Example applications\<close>

definition get_request :: "string \<Rightarrow> incoming" where
  "get_request url =
     \<lparr>in_method = Some ''GET'', in_url = Some url, in_headers = Map.empty, in_stream = []\<rparr>"

definition reject :: "'d step" where
  "reject req = Act (on_response (\<lambda>r. send ''no'' (status 401 r))) Return"









text \<open>
  A handler \<open>async (req, res) => { await res.render("index.html") }\<close> with an engine that
  reads the template from a file, as the default engine does: the read ends in a later
  turn of the event loop, and the writes of \<open>render\<close> follow it.
\<close>

definition working_views :: "unit views" where
  "working_views =
     \<lparr>viewsDir = ''views'', templateEngine = (\<lambda>fullPath data. Rendered ''<h1>Hello</h1>''),
      path_join = (\<lambda>a b. a @ ''/'' @ b), empty_object = ()\<rparr>"

definition render_handler :: "'d step" where
  "render_handler req =
     Suspend (Act (on_response (\<lambda>r. state_after (render working_views ''index.html'' None r))) Return)"

definition rendering_app :: "'d host \<Rightarrow> 'd bonfire" where
  "rendering_app host =
     \<lparr>router = registered [(''GET'', ''/'', render_handler)], middlewares = [jsonMiddleware host]\<rparr>"

definition post_json :: "string \<Rightarrow> string \<Rightarrow> incoming" where
  "post_json url text =
     \<lparr>in_method = Some ''POST'', in_url = Some url,
      in_headers = [''content-type'' \<mapsto> ''application/json''], in_stream = text\<rparr>"

text \<open>
  A host for the examples, on the model of \<open>JSON.stringify\<close> and \<open>JSON.parse\<close> above. The
  dispatcher keeps the text of the request stream and the body of the response over
  code units below 256: \<open>units\<close> takes such a text to a text of the host, and \<open>narrow\<close>
  takes a text of the host back, which is exact when all its code units are below 256,
  as they are in the examples.
\<close>

definition narrow :: "utext \<Rightarrow> string" where
  "narrow t = map (\<lambda>u. char_of (uint u)) t"

definition json_host :: "number jsvalue host" where
  "json_host =
     \<lparr>JSON_parse = (\<lambda>body. parse decimal (units body)),
      JSON_stringify = (\<lambda>d. case stringify decimal d of
                                None \<Rightarrow> Undefined
                              | Some t \<Rightarrow> Text (narrow t)),
      error_object = Obj [(units ''error'', Str (units ''Invalid JSON''))]\<rparr>"

subsection \<open>Invariants of the run\<close>











section \<open>Properties of the router\<close>

subsection \<open>The containers\<close>

lemma split_not_Nil: "split sep s \<noteq> []"
  by (induction s) (auto split: list.splits)

lemma map_of_Map_set: "map_of (Map_set k v kvs) k' = (if k' = k then Some v else map_of kvs k')"
  by (induction kvs) auto

lemma map_fst_Map_set:
  "map fst (Map_set k v kvs) = (if k \<in> fst ` set kvs then map fst kvs else map fst kvs @ [k])"
  by (induction kvs) force+

lemma Map_set_twice: "Map_set k v2 (Map_set k v1 kvs) = Map_set k v2 kvs"
  by (induction kvs) auto

lemma find_holds: "find Q xs = Some x \<Longrightarrow> Q x"
  by (induction xs) (auto split: if_splits)

lemma find_Map_set:
  "find (\<lambda>(rp, h). P rp) (Map_set k v tbl) = Some (k, h) \<Longrightarrow> h = v"
  by (induction tbl) (auto split: if_splits dest: find_holds)

subsection \<open>The outer loop returns at the first accepted entry\<close>

lemma match_routes_find:
  "match_routes tbl url =
     (case find (\<lambda>(rp, h). accepts rp url) tbl of
        None \<Rightarrow> (None, Map.empty)
      | Some (rp, h) \<Rightarrow>
          (Some h, the (match_parts (zip (split CHR ''/'' rp) (split CHR ''/'' url)) Map.empty)))"
  by (induction tbl url rule: match_routes.induct)
     (auto simp: accepts_def Let_def split: option.splits)

subsection \<open>Registering a pair twice\<close>

lemma register_twice:
  "register method path h2 (register method path h1 routes) = register method path h2 routes"
  by (auto simp: register_def map_of_Map_set Map_set_twice split: option.splits)

text \<open>
  C9. Registering the same (method, path) pair a second time is an ordinary call that
  returns a table: the table is the one that the second registration alone gives, so the
  first handler is gone, and whenever \<open>match\<close> returns at that route path the handler
  it hands back is the one registered last.
\<close>

theorem register_twice_replaces:
  "register method path h2 (register method path h1 routes) = register method path h2 routes \<and>
   (selected (register method path h2 (register method path h1 routes)) method url = Some path \<longrightarrow>
      fst (match (register method path h2 (register method path h1 routes)) method url) = Some h2)"
proof (intro conjI impI)
  show twice: "register method path h2 (register method path h1 routes) = register method path h2 routes"
    by (rule register_twice)
  assume "selected (register method path h2 (register method path h1 routes)) method url = Some path"
  then have sel: "selected (register method path h2 routes) method url = Some path"
    by (simp only: twice)
  show "fst (match (register method path h2 (register method path h1 routes)) method url) = Some h2"
  proof (cases "map_of routes method")
    case None
    with sel show ?thesis by (simp add: selected_def register_def)
  next
    case (Some tbl)
    then have tbl': "map_of (register method path h2 routes) method = Some (Map_set path h2 tbl)"
      by (simp add: register_def map_of_Map_set)
    from sel tbl' obtain h where
      f: "find (\<lambda>(rp, h). accepts rp url) (Map_set path h2 tbl) = Some (path, h)"
      by (auto simp: selected_def)
    then have "h = h2" by (rule find_Map_set)
    with f tbl' show ?thesis
      by (simp add: twice match_def match_routes_find)
  qed
qed

theorem register_twice_replaces_witness:
  "selected (register ''GET'' ''/a'' (2::nat) (register ''GET'' ''/a'' 1 new_Router)) ''GET'' ''/a''
     = Some ''/a'' \<and>
   fst (match (register ''GET'' ''/a'' (2::nat) (register ''GET'' ''/a'' 1 new_Router)) ''GET'' ''/a'')
     = Some 2"
proof -
  have sel: "selected (register ''GET'' ''/a'' (2::nat) (register ''GET'' ''/a'' 1 new_Router)) ''GET'' ''/a''
      = Some ''/a''"
    by (simp add: selected_def register_def new_Router_def supported_methods_def accepts_def
        startsWith_colon_def)
  with register_twice_replaces [of "''GET''" "''/a''" "2::nat" 1 new_Router "''/a''"]
  show ?thesis by blast
qed

subsection \<open>The table after a sequence of registrations\<close>

lemma map_of_new_Router:
  "map_of (new_Router :: 'h routes) method = (if method \<in> set supported_methods then Some [] else None)"
  by (simp add: new_Router_def supported_methods_def)

lemma map_of_register:
  "map_of (register m p h routes) method =
     (if method = m then map_option (Map_set p h) (map_of routes m) else map_of routes method)"
  by (auto simp: register_def map_of_Map_set split: option.splits)

lemma registered_snoc:
  "registered (regs @ [(m, p, h)]) = register m p h (registered regs)"
  by (simp add: registered_def)

lemma Map_set_map:
  "distinct ps \<Longrightarrow>
   Map_set p h (map (\<lambda>q. (q, f q)) ps) =
   map (\<lambda>q. (q, (f(p := h)) q)) (if p \<in> set ps then ps else ps @ [p])"
  by (induction ps) auto

lemma spec_patterns_distinct: "distinct (spec_patterns regs method)"
  by (simp add: spec_patterns_def)

lemma spec_patterns_snoc:
  "spec_patterns (regs @ [(m, p, h)]) method =
     (if m = method
      then (if p \<in> set (spec_patterns regs method) then spec_patterns regs method
            else spec_patterns regs method @ [p])
      else spec_patterns regs method)"
  by (auto simp: spec_patterns_def)

lemma spec_handler_snoc:
  "spec_handler (regs @ [(m, p, h)]) method q =
     (if m = method \<and> q = p then Some h else spec_handler regs method q)"
  by (auto simp: spec_handler_def)

lemma spec_table_snoc:
  "spec_table (regs @ [(m, p, h)]) method =
     (if m = method then Map_set p h (spec_table regs method) else spec_table regs method)"
  by (auto simp: spec_table_def Map_set_map spec_patterns_distinct spec_patterns_snoc
        spec_handler_snoc fun_upd_def)

lemma map_of_registered:
  "map_of (registered regs) method =
     (if method \<in> set supported_methods then Some (spec_table regs method) else None)"
proof (induction regs rule: rev_induct)
  case Nil
  show ?case
    by (simp add: registered_def map_of_new_Router spec_table_def spec_patterns_def)
next
  case (snoc r regs)
  obtain m p h where r: "r = (m, p, h)" by (cases r)
  show ?case
    unfolding r registered_snoc map_of_register spec_table_snoc
    using snoc.IH by auto
qed


subsection \<open>The inner loop\<close>

lemma match_parts_None_iff:
  "match_parts zs params = None \<longleftrightarrow> \<not> list_all (\<lambda>(r, u). spec_segment_matches r u) zs"
  by (induction zs params rule: match_parts.induct) (auto simp: spec_segment_matches_def)

lemma match_parts_bindings:
  "match_parts zs params = Some params' \<Longrightarrow> name \<noteq> ''__proto__'' \<Longrightarrow>
   params' name = (params ++ map_of (rev (bindings_of zs))) name"
proof (induction zs params rule: match_parts.induct)
  case (1 params)
  then show ?case by simp
next
  case (2 routePart urlPart rest params)
  show ?case
  proof (cases "startsWith_colon routePart")
    case True
    with 2 have "params' name = (object_set (slice1 routePart) urlPart params ++ map_of (rev (bindings_of rest))) name"
      by simp
    with True 2(4) show ?thesis
      by (auto simp: object_set_def map_add_def split: option.splits)
  next
    case False
    with 2 show ?thesis by (auto split: if_splits)
  qed
qed

lemma accepts_iff_spec: "accepts routePath url \<longleftrightarrow> spec_pattern_matches routePath url"
  by (auto simp: accepts_def spec_pattern_matches_def match_parts_None_iff list_all2_iff list_all_iff)

lemma find_map_pair:
  "find (\<lambda>(p, h). P p) (map (\<lambda>p. (p, g p)) ps) = map_option (\<lambda>p. (p, g p)) (find P ps)"
  by (induction ps) auto

lemma spec_handler_defined:
  "p \<in> set (spec_patterns regs method) \<Longrightarrow> \<exists>h. spec_handler regs method p = Some h"
proof -
  assume "p \<in> set (spec_patterns regs method)"
  then have "p \<in> fst ` set (rev (map (\<lambda>(m, p, h). (p, h)) (filter (\<lambda>(m, p, h). m = method) regs)))"
    by (force simp: spec_patterns_def)
  then show ?thesis
    unfolding spec_handler_def by (metis domD dom_map_of_conv_image_fst)
qed

lemma find_in_set: "find P xs = Some x \<Longrightarrow> x \<in> set xs"
  by (induction xs) (auto split: if_splits)

lemma find_None_set: "find Q xs = None \<longleftrightarrow> (\<forall>x\<in>set xs. \<not> Q x)"
  by (induction xs) auto

lemma colon_slice1_inj:
  "startsWith_colon r \<Longrightarrow> startsWith_colon r' \<Longrightarrow> slice1 r = slice1 r' \<Longrightarrow> r = r'"
  by (cases r; cases r') (auto simp: startsWith_colon_def slice1_def)

lemma last_binding:
  assumes "i < length zs" and "zs ! i = (r, u)" and "startsWith_colon r"
    and "\<forall>j. i < j \<and> j < length zs \<longrightarrow> fst (zs ! j) \<noteq> r"
  shows "map_of (rev (bindings_of zs)) (slice1 r) = Some u"
proof -
  have zs: "zs = take i zs @ (r, u) # drop (Suc i) zs"
    using assms(1,2) by (metis id_take_nth_drop)
  have later: "slice1 r \<notin> fst ` set (bindings_of (drop (Suc i) zs))"
  proof
    assume "slice1 r \<in> fst ` set (bindings_of (drop (Suc i) zs))"
    then obtain r' u' where in_drop: "(r', u') \<in> set (drop (Suc i) zs)"
      and c: "startsWith_colon r'" and eq: "slice1 r' = slice1 r"
      by auto
    from c eq assms(3) have "r' = r" by (simp add: colon_slice1_inj)
    from in_drop obtain k where "k < length (drop (Suc i) zs)" and "drop (Suc i) zs ! k = (r', u')"
      by (auto simp: in_set_conv_nth)
    then have "Suc i + k < length zs" and "zs ! (Suc i + k) = (r', u')"
      by auto
    with assms(4) \<open>r' = r\<close> show False
      by (metis add_Suc fst_conv less_add_Suc1)
  qed
  have "map_of (rev (bindings_of zs)) (slice1 r) =
        map_of (rev (bindings_of (drop (Suc i) zs)) @ (slice1 r, u) # rev (bindings_of (take i zs))) (slice1 r)"
    by (subst zs) (simp add: assms(3))
  also have "\<dots> = Some u"
  proof -
    have "map_of (rev (bindings_of (drop (Suc i) zs))) (slice1 r) = None"
      using later by (simp add: map_of_eq_None_iff)
    then show ?thesis by (simp add: map_add_def)
  qed
  finally show ?thesis .
qed


subsection \<open>What \<open>match\<close> returns\<close>

text \<open>
  A parameter name that occurs twice in a pattern is written twice by the loop, and the
  later write stays: for the pattern \<open>/:a/:a\<close> and the path \<open>/1/2\<close> the binding of \<open>a\<close> to
  \<open>1\<close> is one of the bindings of the match, and the mapping returned does not hold it.
\<close>

theorem duplicate_parameter_counterexample:
  "spec_match [(''GET'', ''/:a/:a'', 7::nat)] ''GET'' ''/1/2'' = Some (7, [(''a'', ''1''), (''a'', ''2'')]) \<and>
   fst (match (registered [(''GET'', ''/:a/:a'', 7::nat)]) ''GET'' ''/1/2'') = Some 7 \<and>
   snd (match (registered [(''GET'', ''/:a/:a'', 7::nat)]) ''GET'' ''/1/2'') ''a'' \<noteq> Some ''1''"
  by (simp add: registered_def register_def new_Router_def supported_methods_def match_def
      startsWith_colon_def slice1_def object_set_def spec_match_def spec_patterns_def
      spec_pattern_matches_def spec_segment_matches_def spec_handler_def spec_bindings_def)


text \<open>A parameter named \<open>__proto__\<close> is accepted and leaves no property behind.\<close>

lemma proto_parameter_unbound:
  "match (registered [(''GET'', ''/:__proto__'', 7::nat)]) ''GET'' ''/x'' = (Some 7, Map.empty)"
  by (simp add: registered_def register_def new_Router_def supported_methods_def match_def
      startsWith_colon_def slice1_def object_set_def)


text \<open>
  C1, amended. For every sequence of registrations, every method and every path,
  \<open>match\<close> returns what the specification's rule returns: the handler of the first
  pattern, in registration order, with the path's number of segments whose literal
  segments equal the path's; no match when there is none or the method is not
  supported. The mapping returned sends a parameter name to the path segment at the
  last position that carries the name, and holds nothing else; the key \<open>__proto__\<close> is
  left out of the comparison on both sides.
\<close>

theorem match_refines_spec_match:
  "map_prod id (\<lambda>params. params |` (- {''__proto__''})) (match (registered regs) method path) =
     (case spec_match regs method path of
        None \<Rightarrow> (None, Map.empty)
      | Some (handler, bindings) \<Rightarrow> (Some handler, map_of (rev bindings) |` (- {''__proto__''})))"
proof (cases "method \<in> set supported_methods")
  case False
  then show ?thesis by (simp add: match_def map_of_registered spec_match_def)
next
  case True
  show ?thesis
  proof (cases "find (\<lambda>pattern. spec_pattern_matches pattern path) (spec_patterns regs method)")
    case None
    with True show ?thesis
      by (simp add: match_def map_of_registered spec_match_def match_routes_find spec_table_def
          find_map_pair accepts_iff_spec)
  next
    case (Some p)
    then have "p \<in> set (spec_patterns regs method)" by (rule find_in_set)
    then obtain h where h: "spec_handler regs method p = Some h"
      using spec_handler_defined by blast
    from Some have "spec_pattern_matches p path" by (rule find_holds)
    then have "accepts p path" by (simp add: accepts_iff_spec)
    then obtain ps where ps: "match_parts (zip (split CHR ''/'' p) (split CHR ''/'' path)) Map.empty = Some ps"
      by (auto simp: accepts_def)
    have "ps |` (- {''__proto__''}) = map_of (rev (spec_bindings p path)) |` (- {''__proto__''})"
      using match_parts_bindings [OF ps]
      by (auto simp: fun_eq_iff restrict_map_def spec_bindings_def)
    with True Some h ps show ?thesis
      by (simp add: match_def map_of_registered spec_match_def match_routes_find spec_table_def
          find_map_pair accepts_iff_spec)
  qed
qed

theorem match_refines_spec_match_witness:
  "map_prod id (\<lambda>params. params |` (- {''__proto__''}))
     (match (registered [(''GET'', ''/users/:id'', 1::nat), (''GET'', ''/users/me'', 2)]) ''GET'' ''/users/me'')
   = (Some 1, [''id'' \<mapsto> ''me''])"
proof -
  have sm: "spec_match [(''GET'', ''/users/:id'', 1::nat), (''GET'', ''/users/me'', 2)] ''GET'' ''/users/me''
      = Some (1, [(''id'', ''me'')])"
    by (simp add: spec_match_def spec_patterns_def supported_methods_def
      spec_pattern_matches_def spec_segment_matches_def spec_handler_def spec_bindings_def startsWith_colon_def slice1_def)
  from match_refines_spec_match [of "[(''GET'', ''/users/:id'', 1::nat), (''GET'', ''/users/me'', 2)]" "''GET''" "''/users/me''"]
  show ?thesis
    unfolding sm by (simp add: restrict_map_def fun_eq_iff)
qed


subsection \<open>Empty path segments\<close>

text \<open>
  For the pattern \<open>/:a/:a\<close> and the path \<open>//x\<close> the parameter at position 1 meets the empty
  segment and the match succeeds, and the mapping returned binds \<open>a\<close> to \<open>x\<close>, not to the
  empty string.
\<close>

theorem parameter_rebound_counterexample:
  "split CHR ''/'' ''/:a/:a'' ! 1 = '':a'' \<and> split CHR ''/'' ''//x'' ! 1 = [] \<and>
   fst (match (registered [(''GET'', ''/:a/:a'', 7::nat)]) ''GET'' ''//x'') = Some 7 \<and>
   snd (match (registered [(''GET'', ''/:a/:a'', 7::nat)]) ''GET'' ''//x'') ''a'' = Some ''x''"
  by (simp add: registered_def register_def new_Router_def supported_methods_def match_def
      startsWith_colon_def slice1_def object_set_def)


text \<open>
  C10, amended. A registered pattern with as many segments as the path, whose literal
  segments equal the path's, makes \<open>match\<close> succeed also when the path segment under a
  parameter is empty: a parameter position rejects nothing. When the loop returns at
  that pattern, the parameter's name is bound to the empty string, provided no later
  segment of the pattern repeats the parameter and its name is not \<open>__proto__\<close>.
\<close>

theorem parameter_accepts_empty_segment:
  assumes tbl: "map_of routes method = Some methodRoutes"
    and entry: "(routePath, handler) \<in> set methodRoutes"
    and len: "length (split CHR ''/'' routePath) = length (split CHR ''/'' url)"
    and lits: "\<forall>j<length (split CHR ''/'' routePath).
                 startsWith_colon (split CHR ''/'' routePath ! j) \<or>
                 split CHR ''/'' routePath ! j = split CHR ''/'' url ! j"
    and i: "i < length (split CHR ''/'' routePath)"
    and par: "startsWith_colon (split CHR ''/'' routePath ! i)"
    and emp: "split CHR ''/'' url ! i = []"
  shows "fst (match routes method url) \<noteq> None \<and>
         (selected routes method url = Some routePath \<and>
          slice1 (split CHR ''/'' routePath ! i) \<noteq> ''__proto__'' \<and>
          (\<forall>j. i < j \<and> j < length (split CHR ''/'' routePath) \<longrightarrow>
                 split CHR ''/'' routePath ! j \<noteq> split CHR ''/'' routePath ! i)
          \<longrightarrow> snd (match routes method url) (slice1 (split CHR ''/'' routePath ! i)) = Some [])"
proof -
  let ?rs = "split CHR ''/'' routePath" and ?us = "split CHR ''/'' url"
  have all: "list_all (\<lambda>(r, u). spec_segment_matches r u) (zip ?rs ?us)"
    using lits len by (auto simp: list_all_iff spec_segment_matches_def in_set_zip)
  then obtain ps where ps: "match_parts (zip ?rs ?us) Map.empty = Some ps"
    using match_parts_None_iff [of "zip ?rs ?us" Map.empty] by auto
  with len have acc: "accepts routePath url" by (simp add: accepts_def)
  with entry have "find (\<lambda>(rp, h). accepts rp url) methodRoutes \<noteq> None"
    by (auto simp: find_None_set)
  then have succeeds: "fst (match routes method url) \<noteq> None"
    using tbl by (auto simp: match_def match_routes_find)
  have binds: "snd (match routes method url) (slice1 (?rs ! i)) = Some []"
    if sel: "selected routes method url = Some routePath"
      and np: "slice1 (?rs ! i) \<noteq> ''__proto__''"
      and last: "\<forall>j. i < j \<and> j < length ?rs \<longrightarrow> ?rs ! j \<noteq> ?rs ! i"
  proof -
    from sel tbl obtain h where "find (\<lambda>(rp, h). accepts rp url) methodRoutes = Some (routePath, h)"
      by (auto simp: selected_def)
    with tbl ps have "snd (match routes method url) = ps"
      by (simp add: match_def match_routes_find)
    moreover have "ps (slice1 (?rs ! i)) = map_of (rev (bindings_of (zip ?rs ?us))) (slice1 (?rs ! i))"
      using match_parts_bindings [OF ps np] by simp
    moreover have "map_of (rev (bindings_of (zip ?rs ?us))) (slice1 (?rs ! i)) = Some []"
    proof (rule last_binding [where i = i])
      show "i < length (zip ?rs ?us)" using i len by simp
      show "zip ?rs ?us ! i = (?rs ! i, [])" using i len emp by simp
      show "startsWith_colon (?rs ! i)" by (rule par)
      show "\<forall>j. i < j \<and> j < length (zip ?rs ?us) \<longrightarrow> fst (zip ?rs ?us ! j) \<noteq> ?rs ! i"
        using last len by simp
    qed
    ultimately show ?thesis by simp
  qed
  from succeeds binds show ?thesis by blast
qed

lemma split_pattern: "split CHR ''/'' ''/users/:id'' = ['''', ''users'', '':id'']"
  by simp
lemma split_url: "split CHR ''/'' ''/users/'' = ['''', ''users'', '''']"
  by simp

theorem parameter_accepts_empty_segment_witness:
  "split CHR ''/'' ''/users/:id'' ! 2 = '':id'' \<and> split CHR ''/'' ''/users/'' ! 2 = [] \<and>
   fst (match (registered [(''GET'', ''/users/:id'', 7::nat)]) ''GET'' ''/users/'') \<noteq> None \<and>
   snd (match (registered [(''GET'', ''/users/:id'', 7::nat)]) ''GET'' ''/users/'') ''id'' = Some []"
proof -
  let ?R = "registered [(''GET'', ''/users/:id'', 7::nat)]"
  have tbl: "map_of ?R ''GET'' = Some [(''/users/:id'', 7)]"
    by (simp add: registered_def register_def new_Router_def supported_methods_def)
  have sel: "selected ?R ''GET'' ''/users/'' = Some ''/users/:id''"
    by (simp add: selected_def tbl accepts_def startsWith_colon_def)
  have lits: "\<forall>j<length (split CHR ''/'' ''/users/:id'').
                 startsWith_colon (split CHR ''/'' ''/users/:id'' ! j) \<or>
                 split CHR ''/'' ''/users/:id'' ! j = split CHR ''/'' ''/users/'' ! j"
    by (simp add: split_pattern split_url less_Suc_eq startsWith_colon_def)
  have last: "\<forall>j. 2 < j \<and> j < length (split CHR ''/'' ''/users/:id'') \<longrightarrow>
                 split CHR ''/'' ''/users/:id'' ! j \<noteq> split CHR ''/'' ''/users/:id'' ! 2"
    by (simp add: split_pattern)
  have s2: "split CHR ''/'' ''/users/:id'' ! 2 = '':id''" by (simp add: split_pattern)
  have u2: "split CHR ''/'' ''/users/'' ! 2 = []" by (simp add: split_url)
  have "fst (match ?R ''GET'' ''/users/'') \<noteq> None \<and>
        snd (match ?R ''GET'' ''/users/'') (slice1 (split CHR ''/'' ''/users/:id'' ! 2)) = Some []"
    using parameter_accepts_empty_segment [of ?R "''GET''" "[(''/users/:id'', 7)]" "''/users/:id''" 7
        "''/users/''" 2, OF tbl _ _ lits _ _ u2] sel last
    by (simp add: s2 split_pattern split_url startsWith_colon_def slice1_def)
  then show ?thesis using s2 u2 by (simp add: slice1_def)
qed

section \<open>Properties of the response context\<close>

subsection \<open>Every variable holds its last write\<close>

lemma perform_call_writes:
  assumes "perform_call js app c r = Normal r'"
  shows "statusCode r' = last (statusCode r # status_writes app c)"
    and "map_of (headers r') k = (map_of (headers r) ++ map_of (rev (header_writes app c))) k"
    and "responseBody r' = last (responseBody r # body_writes js app c)"
  using assms
  by (auto simp: perform_call_def status_def send_def setHeader_def json_def render_def
      status_writes_def header_writes_def body_writes_def engine_outcome_def Let_def
      map_of_Map_set map_add_def
      split: call.splits stringified.splits engine_result.splits option.splits)

lemma perform_writes:
  "perform js app cs r = Normal r' \<Longrightarrow>
   statusCode r' = last (statusCode r # concat (map (status_writes app) cs)) \<and>
   (\<forall>k. map_of (headers r') k =
        (map_of (headers r) ++ map_of (rev (concat (map (header_writes app) cs)))) k) \<and>
   responseBody r' = last (responseBody r # concat (map (body_writes js app) cs))"
proof (induction cs arbitrary: r)
  case Nil
  then show ?case by simp
next
  case (Cons c cs)
  from Cons.prems obtain r1 where c: "perform_call js app c r = Normal r1"
    and cs: "perform js app cs r1 = Normal r'"
    by (auto split: completion.splits)
  note w = perform_call_writes [OF c] and ih = Cons.IH [OF cs]
  have st: "statusCode r' = last (statusCode r # concat (map (status_writes app) (c # cs)))"
    using ih w(1) by (simp add: last_append)
  have bd: "responseBody r' = last (responseBody r # concat (map (body_writes js app) (c # cs)))"
    using ih w(3) by (simp add: last_append)
  have hd: "map_of (headers r') k =
        (map_of (headers r) ++ map_of (rev (concat (map (header_writes app) (c # cs))))) k" for k
    using ih w(2) by (simp add: map_add_def rev_concat split: option.splits)
  from st bd hd show ?case by blast
qed


text \<open>
  After \<open>status(201)\<close>, a \<open>render\<close> whose engine fails and \<open>send("ok")\<close>, the status read is
  500, not the argument of the last \<open>status\<close> call, and the \<open>Content-Type\<close> of the earlier
  terminal call is still there beside the body of the later one.
\<close>

theorem failed_render_status_counterexample:
  "perform (\<lambda>d. Text ''{}'') failing_views
       [Status 201, Render ''index.html'' None, Send ''ok''] initial_response
     = Normal \<lparr>statusCode = 500,
               headers = [(''Content-Type'', ''text/plain'')],
               responseBody = Some ''ok''\<rparr>"
  by (simp add: perform_call_def status_def send_def render_def initial_response_def
      failing_views_def message_text_def)


text \<open>
  C5, amended. After any sequence of calls that all return, the status read is the last
  value written to it: the argument of the last \<open>status\<close> call, or 500 when a \<open>render\<close>
  failed after that call (200 with neither). Each header holds the value of the last
  \<open>setHeader\<close>, \<open>json\<close> or \<open>render\<close> write for its key. The body is the one written by the
  last \<open>send\<close>, \<open>json\<close> or \<open>render\<close> to run, alone: bodies are never joined. What an
  earlier \<open>json\<close> or \<open>render\<close> wrote to \<open>Content-Type\<close> or to the status stays until it is
  overwritten.
\<close>

theorem last_writes_are_read:
  "perform js app calls initial_response = Normal r \<Longrightarrow>
   statusCode r = last (200 # concat (map (status_writes app) calls)) \<and>
   (\<forall>key. map_of (headers r) key = map_of (rev (concat (map (header_writes app) calls))) key) \<and>
   responseBody r = last (None # concat (map (body_writes js app) calls))"
  using perform_writes [of js app calls initial_response r]
  by (simp add: initial_response_def)

theorem last_writes_are_read_witness:
  "perform (\<lambda>d. Text ''{}'') failing_views
       [Status 201, SetHeader ''X'' ''1'', Send ''a'', Json (), Status 202] initial_response
     = Normal \<lparr>statusCode = 202,
               headers = [(''X'', ''1''), (''Content-Type'', ''application/json'')],
               responseBody = Some ''{}''\<rparr> \<and>
   last (200 # concat (map (status_writes failing_views)
       [Status 201, SetHeader ''X'' ''1'', Send ''a'', Json (), Status 202])) = 202 \<and>
   last (None # concat (map (body_writes (\<lambda>d. Text ''{}'') failing_views)
       [Status 201, SetHeader ''X'' ''1'', Send ''a'', Json (), Status 202])) = Some ''{}''"
proof -
  have p: "perform (\<lambda>d. Text ''{}'') failing_views
       [Status 201, SetHeader ''X'' ''1'', Send ''a'', Json (), Status 202] initial_response
     = Normal \<lparr>statusCode = 202,
               headers = [(''X'', ''1''), (''Content-Type'', ''application/json'')],
               responseBody = Some ''{}''\<rparr>"
    by (simp add: perform_call_def status_def send_def setHeader_def json_def initial_response_def)
  from last_writes_are_read [OF p] p show ?thesis by simp
qed


subsection \<open>\<open>render\<close>\<close>

lemma render_outcomes:
  "case engine_outcome app templatePath data of
     Rendered rendered \<Rightarrow>
       (\<exists>r'. render app templatePath data r = Normal r' \<and>
             map_of (headers r') ''Content-Type'' = Some ''text/html'' \<and>
             responseBody r' = Some rendered \<and> statusCode r' = statusCode r)
   | Rejected e \<Rightarrow>
       (\<exists>r'. state_after (render app templatePath data r) = r' \<and>
             statusCode r' = 500 \<and>
             map_of (headers r') ''Content-Type'' = Some ''text/plain'' \<and>
             (case message_text e of
                Some message \<Rightarrow>
                  render app templatePath data r = Normal r' \<and>
                  responseBody r' = Some (''Error rendering template: '' @ message)
              | None \<Rightarrow>
                  render app templatePath data r = Throw r' \<and>
                  responseBody r' = responseBody r))"
  by (auto simp: render_def engine_outcome_def state_after_def Let_def map_of_Map_set
      split: engine_result.splits option.splits)

text \<open>
  C6, at an input where the code does otherwise. The engine rejects with \<open>null\<close>. The
  \<open>catch\<close> block of \<open>render\<close> sets \<open>Content-Type\<close> to \<open>text/plain\<close> and the status to 500, and
  then throws a \<open>TypeError\<close> while it reads \<open>(e as Error).message\<close>: no body is set, and
  the promise of \<open>render\<close> is rejected, so the failure reaches the caller.
\<close>

theorem render_rejects_on_null_failure:
  "render null_views ''index.html'' None initial_response =
     Throw \<lparr>statusCode = 500, headers = [(''Content-Type'', ''text/plain'')],
            responseBody = None\<rparr>"
  by (simp add: render_def null_views_def message_text_def initial_response_def)

section \<open>Properties of the dispatcher\<close>

subsection \<open>A step that never invokes \<open>next\<close>\<close>









subsection \<open>Orderly chains\<close>

















lemmas evaluate =
  handleRequest_def executeMiddleware.simps request_of_def or_else_def fresh_exchange_def
  initial_response_def get_request_def on_response_def send_def status_def setHeader_def
  flush_def waiting_def complete_def trace_def match_def registered_def register_def
  new_Router_def supported_methods_def startsWith_colon_def slice1_def object_set_def

subsection \<open>Short-circuiting\<close>




subsection \<open>No route\<close>





subsection \<open>The flush and work still suspended\<close>

text \<open>
  C3, at an input where the code does otherwise. \<open>jsonMiddleware\<close> passes a \<open>GET\<close> on
  with \<open>next();\<close> and returns; the handler awaits \<open>res.render\<close>. The promise of
  \<open>executeMiddleware(0)\<close> is resolved while the handler is suspended: the dispatcher
  flushes status 200 with no header and no body, and the handler's writes come after
  the flush.
\<close>

theorem flush_before_handler_completes:
  "trace (handleRequest (rendering_app json_host) (get_request ''/'') [0]) =
     [Started 0, Started 1, Handler_called,
      Finished 0 \<lparr>statusCode = 200, headers = [], responseBody = None\<rparr>,
      Flush \<lparr>statusCode = 200, headers = [], responseBody = None\<rparr>,
      Finished 1 \<lparr>statusCode = 200, headers = [(''Content-Type'', ''text/html'')],
                  responseBody = Some ''<h1>Hello</h1>''\<rparr>]"
  by (simp add: evaluate rendering_app_def jsonMiddleware_def render_handler_def render_def
      working_views_def state_after_def)

subsection \<open>A body that is not JSON\<close>

text \<open>
  C8, where the code does otherwise. With \<open>jsonMiddleware\<close> as the first step, a request
  that is neither \<open>GET\<close> nor \<open>HEAD\<close>, whose \<open>content-type\<close> includes \<open>application/json\<close> and
  whose non-empty body \<open>JSON.parse\<close> rejects: once the stream has ended the response
  context holds status 400 and the JSON error body, and under every schedule nothing
  is ever flushed, because the promise the middleware awaits is never resolved.
\<close>

theorem invalid_json_never_flushed:
  fixes app :: "'d bonfire"
  assumes first: "middlewares app \<noteq> []" "middlewares app ! 0 = jsonMiddleware host"
    and unsafe: "rq_method (request_of msg) \<noteq> ''GET''" "rq_method (request_of msg) \<noteq> ''HEAD''"
    and ctype: "in_headers msg ''content-type'' = Some contentType"
               "string_includes contentType ''application/json''"
    and body: "in_stream msg \<noteq> []" "JSON_parse host (in_stream msg) = None"
  shows "(\<forall>r. Flush r \<notin> set (trace (handleRequest app msg schedule))) \<and>
         (schedule \<noteq> [] \<longrightarrow>
            response (fst (config (handleRequest app msg schedule))) =
              state_after (json (JSON_stringify host) (error_object host) (status 400 initial_response)))"
proof -
  let ?req = "request_of msg"
  let ?reject = "Act (on_response (\<lambda>r. state_after
                   (json (JSON_stringify host) (error_object host) (status 400 r)))) Never
                 :: 'd exchange task"
  have rq: "rq_headers ?req ''content-type'' = Some contentType" "rq_stream ?req = in_stream msg"
    using ctype by (simp_all add: request_of_def)
  have jm: "jsonMiddleware host ?req = Act (\<lambda>s. s\<lparr>rq_body := None\<rparr>) (Suspend ?reject)"
    using unsafe ctype(2) body rq by (simp add: jsonMiddleware_def)
  have e: "executeMiddleware app ?req 0 (fresh_exchange, []) =
             ((fresh_exchange\<lparr>rq_body := None\<rparr>, [Started 0]), [], Pending [(?reject, 0)])"
    using first by (simp add: executeMiddleware.simps jm)
  show ?thesis
  proof (cases schedule)
    case Nil
    then show ?thesis
      by (simp add: handleRequest_def e flush_def trace_def)
  next
    case (Cons choice rest)
    have "handleRequest app msg schedule =
            \<lparr>config = (on_response (\<lambda>r. state_after
                  (json (JSON_stringify host) (error_object host) (status 400 r)))
                  (fresh_exchange\<lparr>rq_body := None\<rparr>), [Started 0]),
              main = Unsettled, detached = [], flushed = False\<rparr>"
      unfolding Cons handleRequest_def e
      by (cases rest) (simp_all add: flush_def waiting_def complete_def Let_def)
    then show ?thesis
      by (simp add: trace_def on_response_def fresh_exchange_def)
  qed
qed

theorem invalid_json_never_flushed_witness:
  "Flush \<lparr>statusCode = 400, headers = [(''Content-Type'', ''application/json'')],
          responseBody = Some ''{\"error\":\"Invalid JSON\"}''\<rparr>
     \<notin> set (trace (handleRequest \<lparr>router = new_Router, middlewares = [jsonMiddleware json_host]\<rparr>
                       (post_json ''/users'' ''{bad'') [0, 0, 0])) \<and>
   response (fst (config (handleRequest \<lparr>router = new_Router, middlewares = [jsonMiddleware json_host]\<rparr>
                       (post_json ''/users'' ''{bad'') [0, 0, 0]))) =
     \<lparr>statusCode = 400, headers = [(''Content-Type'', ''application/json'')],
      responseBody = Some ''{\"error\":\"Invalid JSON\"}''\<rparr>"
proof -
  let ?app = "\<lparr>router = new_Router, middlewares = [jsonMiddleware json_host]\<rparr> :: number jsvalue bonfire"
  let ?msg = "post_json ''/users'' ''{bad''"
  have bad: "JSON_parse json_host ''{bad'' = None" by code_simp
  have err: "JSON_stringify json_host (error_object json_host) = Text ''{\"error\":\"Invalid JSON\"}''"
    by code_simp
  have st: "state_after (json (JSON_stringify json_host) (error_object json_host)
               (status 400 initial_response)) =
            \<lparr>statusCode = 400, headers = [(''Content-Type'', ''application/json'')],
             responseBody = Some ''{\"error\":\"Invalid JSON\"}''\<rparr>"
    by (simp only: json_def Let_def err)
       (simp add: state_after_def status_def initial_response_def)
  from invalid_json_never_flushed [of ?app json_host ?msg "''application/json''" "[0, 0, 0]"]
  show ?thesis
    unfolding st
    by (simp add: request_of_def or_else_def post_json_def bad)
qed

section \<open>Properties of \<open>json\<close>\<close>

subsection \<open>Strings are read back\<close>

lemma uint_code_unit: "uint (code_unit c) = of_char c"
proof -
  have "(of_char c :: nat) < 2 ^ 16"
    by (rule order_less_trans [OF nat_of_char_less_256]) simp
  then have "unat (of_nat (of_char c) :: 16 word) = of_char c"
    by (simp add: unat_of_nat)
  then have "int (unat (code_unit c)) = int (of_char c)"
    unfolding code_unit_def by simp
  then show ?thesis by (simp add: of_nat_of_char)
qed

lemma code_unit_eq_iff [simp]: "code_unit c = code_unit d \<longleftrightarrow> c = d"
proof
  assume "code_unit c = code_unit d"
  then have "uint (code_unit c) = uint (code_unit d)" by simp
  then have "(of_char c :: int) = of_char d" by (simp only: uint_code_unit)
  then show "c = d" by (simp only: of_char_eq_iff)
qed simp








subsection \<open>Numeric literals are read back\<close>









subsection \<open>Values are read back\<close>






lemma is_ws_code_unit [simp]:
  "\<not> is_ws (code_unit CHR ''n'')" "\<not> is_ws (code_unit CHR ''t'')" "\<not> is_ws (code_unit CHR ''f'')"
  "\<not> is_ws (code_unit CHR 0x22)" "\<not> is_ws (code_unit CHR ''['')" "\<not> is_ws (code_unit CHR ''{'')"
  "\<not> is_ws (code_unit CHR ''-'')" "\<not> is_ws (code_unit CHR '','')" "\<not> is_ws (code_unit CHR '']'')"
  "\<not> is_ws (code_unit CHR ''}'')" "\<not> is_ws (code_unit CHR '':'')"
  by (simp_all add: is_ws_def code_unit_def)


lemma is_digit_code_unit [simp]:
  "\<not> is_digit (code_unit CHR ''n'')" "\<not> is_digit (code_unit CHR ''t'')" "\<not> is_digit (code_unit CHR ''f'')"
  "\<not> is_digit (code_unit CHR 0x22)" "\<not> is_digit (code_unit CHR ''['')" "\<not> is_digit (code_unit CHR ''{'')"
  "\<not> is_digit (code_unit CHR ''-'')" "\<not> is_digit (code_unit CHR '','')" "\<not> is_digit (code_unit CHR '']'')"
  "\<not> is_digit (code_unit CHR ''}'')" "\<not> is_digit (code_unit CHR '':'')"
  by (simp_all add: is_digit_def code_unit_def)


lemma skip_ws_simps [simp]:
  "\<not> is_ws c \<Longrightarrow> skip_ws (c # t) = c # t" "skip_ws [] = []"
  by (simp_all add: skip_ws_def)

lemma ends_number_simps [simp]:
  "ends_number []" "ends_number (code_unit CHR '','' # t)" "ends_number (code_unit CHR '']'' # t)"
  "ends_number (code_unit CHR ''}'' # t)"
  by (simp_all add: ends_number_def)












subsection \<open>The body that \<open>json\<close> sets\<close>




end
